theory Spec2Isabelle
  imports Complex_Main "HOL-Library.Log_Nat"
begin

section \<open>JavaScript numbers\<close>

text \<open>
  The size negotiator of \<^verbatim>\<open>server.js\<close> computes with JavaScript numbers, which are
  IEEE 754 binary64 values.  A finite number is kept as a pair of integers: \<open>Fin m e\<close> stands
  for \<open>m * 2^e\<close>.  Every arithmetic result is rounded to the nearest double, ties to the even
  mantissa, with overflow to infinity and gradual underflow, as the hardware does.  The sign of
  a zero is not kept: the program below never divides by a zero and never prints one.
\<close>

datatype jsnum = NaN | Fin int int | PInf | NInf


definition rne_div :: "int \<Rightarrow> int \<Rightarrow> int" where
  \<comment> \<open>the integer nearest to \<open>n / d\<close>, ties to even (\<open>0 \<le> n\<close>, \<open>0 < d\<close>)\<close>
  "rne_div n d = (let f = n div d; r = n mod d in
     if 2 * r < d then f else if d < 2 * r then f + 1 else if even f then f else f + 1)"

definition floor_log2 :: "int \<Rightarrow> int \<Rightarrow> int" where
  \<comment> \<open>\<open>\<lfloor>log\<^sub>2 (n / d)\<rfloor>\<close> for positive \<open>n\<close> and \<open>d\<close>\<close>
  "floor_log2 n d = (let k = bitlen n - bitlen d in
     if (if 0 \<le> k then d * 2 ^ nat k \<le> n else d \<le> n * 2 ^ nat (- k)) then k else k - 1)"

definition mantissa :: "int \<Rightarrow> int \<Rightarrow> int \<Rightarrow> int" where
  \<comment> \<open>the integer nearest to \<open>n / d * 2^k\<close>, ties to even\<close>
  "mantissa n d k = (if 0 \<le> k then rne_div (n * 2 ^ nat k) d else rne_div n (d * 2 ^ nat (- k)))"

definition expo :: "int \<Rightarrow> int \<Rightarrow> int \<Rightarrow> int" where
  \<comment> \<open>the binary exponent of \<open>n / d * 2^t\<close>, not below that of the subnormal numbers\<close>
  "expo n d t = max (floor_log2 n d + t) (- 1022)"

definition pack :: "int \<Rightarrow> int \<Rightarrow> jsnum" where
  \<comment> \<open>a 53-bit mantissa at exponent \<open>e\<close>; beyond the largest double the result is infinite\<close>
  "pack e m = (if 1024 \<le> e \<or> (e = 1023 \<and> 2 ^ 53 \<le> m) then PInf else Fin m (e - 52))"

definition round_frac :: "int \<Rightarrow> int \<Rightarrow> int \<Rightarrow> jsnum" where
  \<comment> \<open>the double nearest to \<open>n / d * 2^t\<close> for positive \<open>n\<close> and \<open>d\<close>\<close>
  "round_frac n d t = pack (expo n d t) (mantissa n d (t - (expo n d t - 52)))"

fun js_neg :: "jsnum \<Rightarrow> jsnum" where
  "js_neg NaN = NaN"
| "js_neg (Fin m e) = Fin (- m) e"
| "js_neg PInf = NInf"
| "js_neg NInf = PInf"

definition to_double :: "int \<Rightarrow> int \<Rightarrow> int \<Rightarrow> jsnum" where
  \<comment> \<open>the double nearest to \<open>n / d * 2^t\<close> for any \<open>n\<close> and positive \<open>d\<close>\<close>
  "to_double n d t = (if n = 0 then Fin 0 0 else if 0 < n then round_frac n d t
     else js_neg (round_frac (- n) d t))"

definition js_int :: "int \<Rightarrow> jsnum" where
  "js_int k = to_double k 1 0"

fun js_div :: "jsnum \<Rightarrow> jsnum \<Rightarrow> jsnum" where
  "js_div NaN _ = NaN"
| "js_div _ NaN = NaN"
| "js_div (Fin m1 e1) (Fin m2 e2) =
     (if m2 = 0 then (if m1 = 0 then NaN else if 0 < m1 then PInf else NInf)
      else if 0 < m2 then to_double m1 m2 (e1 - e2) else to_double (- m1) (- m2) (e1 - e2))"
| "js_div (Fin m e) _ = Fin 0 0"
| "js_div PInf (Fin m e) = (if 0 \<le> m then PInf else NInf)"
| "js_div NInf (Fin m e) = (if 0 \<le> m then NInf else PInf)"
| "js_div _ _ = NaN"

fun js_sub :: "jsnum \<Rightarrow> jsnum \<Rightarrow> jsnum" where
  "js_sub NaN _ = NaN"
| "js_sub _ NaN = NaN"
| "js_sub (Fin m1 e1) (Fin m2 e2) =
     to_double (m1 * 2 ^ nat (e1 - min e1 e2) - m2 * 2 ^ nat (e2 - min e1 e2)) 1 (min e1 e2)"
| "js_sub (Fin m e) PInf = NInf"
| "js_sub (Fin m e) NInf = PInf"
| "js_sub PInf PInf = NaN"
| "js_sub PInf _ = PInf"
| "js_sub NInf NInf = NaN"
| "js_sub NInf _ = NInf"

fun js_abs :: "jsnum \<Rightarrow> jsnum" where
  "js_abs NaN = NaN"
| "js_abs (Fin m e) = Fin \<bar>m\<bar> e"
| "js_abs PInf = PInf"
| "js_abs NInf = PInf"

fun js_lt :: "jsnum \<Rightarrow> jsnum \<Rightarrow> bool" where
  "js_lt NaN _ = False"
| "js_lt _ NaN = False"
| "js_lt (Fin m1 e1) (Fin m2 e2) =
     (m1 * 2 ^ nat (e1 - min e1 e2) < m2 * 2 ^ nat (e2 - min e1 e2))"
| "js_lt (Fin m e) PInf = True"
| "js_lt (Fin m e) NInf = False"
| "js_lt PInf _ = False"
| "js_lt NInf NInf = False"
| "js_lt NInf _ = True"

fun js_eq :: "jsnum \<Rightarrow> jsnum \<Rightarrow> bool" where
  "js_eq NaN _ = False"
| "js_eq _ NaN = False"
| "js_eq (Fin m1 e1) (Fin m2 e2) =
     (m1 * 2 ^ nat (e1 - min e1 e2) = m2 * 2 ^ nat (e2 - min e1 e2))"
| "js_eq PInf PInf = True"
| "js_eq NInf NInf = True"
| "js_eq _ _ = False"

fun js_falsy :: "jsnum \<Rightarrow> bool" where
  "js_falsy NaN = True"
| "js_falsy (Fin m e) = (m = 0)"
| "js_falsy _ = False"

section \<open>Strings to numbers\<close>

text \<open>
  \<^verbatim>\<open>Number(s)\<close> on a string: surrounding white space is dropped, the empty string is
  \<open>0\<close>, then a binary, octal or hexadecimal integer, or a signed decimal with optional
  fraction and exponent, or a signed \<^verbatim>\<open>Infinity\<close>; anything else is \<open>NaN\<close>.  Strings are
  sequences of 8-bit characters here, so the white space is that of Latin-1.
\<close>

definition is_ws :: "char \<Rightarrow> bool" where
  "is_ws c = (of_char c \<in> {9, 10, 11, 12, 13, 32, 160 :: nat})"

definition trim :: "string \<Rightarrow> string" where
  "trim s = rev (dropWhile is_ws (rev (dropWhile is_ws s)))"

definition digit_of :: "char \<Rightarrow> nat option" where
  "digit_of c = (let k = of_char c :: nat in
     if 48 \<le> k \<and> k \<le> 57 then Some (k - 48)
     else if 97 \<le> k \<and> k \<le> 102 then Some (k - 87)
     else if 65 \<le> k \<and> k \<le> 70 then Some (k - 55)
     else None)"

definition is_digit :: "nat \<Rightarrow> char \<Rightarrow> bool" where
  "is_digit b c = (case digit_of c of Some v \<Rightarrow> v < b | None \<Rightarrow> False)"

definition digits_val :: "nat \<Rightarrow> string \<Rightarrow> int" where
  "digits_val b ds = foldl (\<lambda>a c. int b * a + int (case digit_of c of Some v \<Rightarrow> v | None \<Rightarrow> 0)) 0 ds"

definition all_digits :: "nat \<Rightarrow> string \<Rightarrow> bool" where
  "all_digits b ds = (ds \<noteq> [] \<and> list_all (is_digit b) ds)"

definition radix_of :: "string \<Rightarrow> nat option" where
  \<comment> \<open>the radix announced by a \<^verbatim>\<open>0b\<close>, \<^verbatim>\<open>0o\<close> or \<^verbatim>\<open>0x\<close> prefix\<close>
  "radix_of t = (case t of
       a # b # _ \<Rightarrow>
         if a \<noteq> CHR ''0'' then None
         else if b = CHR ''b'' \<or> b = CHR ''B'' then Some 2
         else if b = CHR ''o'' \<or> b = CHR ''O'' then Some 8
         else if b = CHR ''x'' \<or> b = CHR ''X'' then Some 16
         else None
     | _ \<Rightarrow> None)"

definition scale10 :: "int \<Rightarrow> int \<Rightarrow> jsnum" where
  \<comment> \<open>the double nearest to \<open>D * 10^k\<close>\<close>
  "scale10 D k = (if 0 \<le> k then to_double (D * 10 ^ nat k) 1 0 else to_double D (10 ^ nat (- k)) 0)"

definition exp_part :: "string \<Rightarrow> int option" where
  "exp_part r = (case r of
       [] \<Rightarrow> Some 0
     | c # ds \<Rightarrow>
         if c \<noteq> CHR ''e'' \<and> c \<noteq> CHR ''E'' then None
         else (case ds of
             [] \<Rightarrow> None
           | g # ds' \<Rightarrow>
               if g = CHR ''-'' then (if all_digits 10 ds' then Some (- digits_val 10 ds') else None)
               else if g = CHR ''+'' then (if all_digits 10 ds' then Some (digits_val 10 ds') else None)
               else (if all_digits 10 ds then Some (digits_val 10 ds) else None)))"

definition frac_part :: "string \<Rightarrow> string \<times> string" where
  \<comment> \<open>the digits after a decimal point, and what follows them\<close>
  "frac_part r = (case r of
       c # r' \<Rightarrow> if c = CHR ''.'' then (takeWhile (is_digit 10) r', dropWhile (is_digit 10) r') else ([], r)
     | [] \<Rightarrow> ([], r))"

definition unsigned_decimal :: "string \<Rightarrow> jsnum" where
  "unsigned_decimal u =
     (if u = ''Infinity'' then PInf
      else if takeWhile (is_digit 10) u = [] \<and> fst (frac_part (dropWhile (is_digit 10) u)) = [] then NaN
      else (case exp_part (snd (frac_part (dropWhile (is_digit 10) u))) of
          None \<Rightarrow> NaN
        | Some ex \<Rightarrow>
            scale10 (digits_val 10 (takeWhile (is_digit 10) u @ fst (frac_part (dropWhile (is_digit 10) u))))
              (ex - int (length (fst (frac_part (dropWhile (is_digit 10) u)))))))"

definition signed_decimal :: "string \<Rightarrow> jsnum" where
  "signed_decimal t = (case t of
       c # u \<Rightarrow>
         if c = CHR ''-'' then js_neg (unsigned_decimal u)
         else if c = CHR ''+'' then unsigned_decimal u
         else unsigned_decimal t
     | [] \<Rightarrow> NaN)"

definition numeric_literal :: "string \<Rightarrow> jsnum" where
  "numeric_literal t =
     (if t = [] then Fin 0 0
      else (case radix_of t of
          Some b \<Rightarrow> if all_digits b (drop 2 t) then js_int (digits_val b (drop 2 t)) else NaN
        | None \<Rightarrow> signed_decimal t))"

definition Number_js :: "string \<Rightarrow> jsnum" where
  "Number_js s = numeric_literal (trim s)"

fun split_on :: "char \<Rightarrow> string \<Rightarrow> string list" where
  "split_on c [] = [[]]"
| "split_on c (a # s) =
     (if a = c then [] # split_on c s
      else (case split_on c s of p # ps \<Rightarrow> (a # p) # ps | [] \<Rightarrow> [[a]]))"

section \<open>The size negotiator\<close>

record sora_size =
  width :: int
  height :: int
  ratio :: jsnum
  name :: string

definition VALID_SORA_SIZES :: "sora_size list" where
  "VALID_SORA_SIZES =
    [\<lparr>width = 720, height = 1280, ratio = js_div (js_int 9) (js_int 16), name = ''720x1280''\<rparr>,
     \<lparr>width = 1280, height = 720, ratio = js_div (js_int 16) (js_int 9), name = ''1280x720''\<rparr>,
     \<lparr>width = 1024, height = 1792, ratio = js_div (js_int 9) (js_int 16), name = ''1024x1792''\<rparr>,
     \<lparr>width = 1792, height = 1024, ratio = js_div (js_int 16) (js_int 9), name = ''1792x1024''\<rparr>]"

text \<open>
  One pass of the \<^verbatim>\<open>for\<close> loop of \<^verbatim>\<open>mapToValidSoraSize\<close>: the state is the pair
  \<^verbatim>\<open>(bestMatch, smallestDiff)\<close>.
\<close>

definition consider_size :: "jsnum \<Rightarrow> bool \<Rightarrow> sora_size \<times> jsnum \<Rightarrow> sora_size \<Rightarrow> sora_size \<times> jsnum" where
  "consider_size requestedRatio isPortrait st validSize =
     (if (width validSize < height validSize) \<noteq> isPortrait then st
      else (let diff = js_abs (js_sub requestedRatio (ratio validSize)) in
        if js_lt diff (snd st) then (validSize, diff) else st))"

definition closest_size :: "jsnum \<Rightarrow> jsnum \<Rightarrow> string" where
  \<comment> \<open>the part of \<^verbatim>\<open>mapToValidSoraSize\<close> after the parse: \<open>w\<close> and \<open>h\<close> are truthy\<close>
  "closest_size w h =
     name (fst (foldl (consider_size (js_div w h) (js_lt w h))
       (hd VALID_SORA_SIZES, js_abs (js_sub (js_div w h) (ratio (hd VALID_SORA_SIZES))))
       VALID_SORA_SIZES))"

definition mapToValidSoraSize :: "string \<Rightarrow> string" where
  "mapToValidSoraSize requestedSize =
     (case map Number_js (split_on CHR ''x'' requestedSize) of
        w # h # _ \<Rightarrow> if js_falsy w \<or> js_falsy h then ''720x1280'' else closest_size w h
      | _ \<Rightarrow> ''720x1280'')"

definition is_fin :: "jsnum \<Rightarrow> bool" where
  "is_fin x = (case x of Fin m e \<Rightarrow> True | _ \<Rightarrow> False)"



section \<open>Requests, responses and effects\<close>

text \<open>
  A handler is a function from what the request holds and what the outside world answers
  to the list of effects it performs, in order.  An error value stands for a thrown
  \<^verbatim>\<open>Error\<close>; a JSON value is kept as its text.  A field of a request body is a string
  or is absent (\<open>None\<close>); the empty string is falsy, as in the source.
\<close>

datatype json = Json string

datatype failure =
    CreateFailed nat string
  | RetrieveFailed nat string
  | RemixFailed nat string
  | ServerError nat nat
  | Thrown "string option"

fun err_code :: "failure \<Rightarrow> string option" where
  "err_code (Thrown c) = c"
| "err_code _ = None"

datatype body =
    Job json
  | ErrorBody string "failure option" "bool option"

fun retryable :: "body \<Rightarrow> bool option" where
  "retryable (Job j) = None"
| "retryable (ErrorBody msg details r) = r"

datatype form_value = Text string | FileStream string string string nat

datatype request =
    CreateVideo "(string \<times> form_value) list"
  | GetVideo string
  | RemixVideo string string
  | GetImage string

datatype effect =
    Fetch request
  | Sleep nat
  | Unlink string
  | WriteFile string
  | ResizeToFile string string "jsnum option" "jsnum option" string bool
  | Respond nat body

text \<open>
  What a remote call gives: it is rejected with an error (and the error's \<^verbatim>\<open>code\<close>, if any),
  or it answers with a status and a body text, whose JSON reading is \<open>None\<close> when the text
  is not JSON.
\<close>

datatype reply = Rejected "string option" | Reply nat string "json option"

definition ok :: "nat \<Rightarrow> bool" where
  "ok st = (200 \<le> st \<and> st < 300)"

definition str_falsy :: "string option \<Rightarrow> bool" where
  "str_falsy v = (case v of None \<Rightarrow> True | Some s \<Rightarrow> s = [])"

definition or_else :: "string option \<Rightarrow> string \<Rightarrow> string" where
  "or_else v d = (case v of None \<Rightarrow> d | Some s \<Rightarrow> if s = [] then d else s)"

definition not_configured :: effect where
  "not_configured = Respond 503 (ErrorBody
     ''OpenAI API key not configured. Please set OPENAI_API_KEY environment variable.'' None None)"

fun delays :: "effect list \<Rightarrow> nat list" where
  "delays [] = []"
| "delays (Sleep ms # es) = ms # delays es"
| "delays (e # es) = delays es"

fun requests :: "effect list \<Rightarrow> request list" where
  "requests [] = []"
| "requests (Fetch r # es) = r # requests es"
| "requests (e # es) = requests es"

fun unlinked :: "effect list \<Rightarrow> string list" where
  "unlinked [] = []"
| "unlinked (Unlink p # es) = p # unlinked es"
| "unlinked (e # es) = unlinked es"

fun written :: "effect list \<Rightarrow> string list" where
  "written [] = []"
| "written (WriteFile p # es) = p # written es"
| "written (ResizeToFile src dst w h fit enl # es) = dst # written es"
| "written (e # es) = written es"

fun responses :: "effect list \<Rightarrow> (nat \<times> body) list" where
  "responses [] = []"
| "responses (Respond st b # es) = (st, b) # responses es"
| "responses (e # es) = responses es"

definition responds_last :: "effect list \<Rightarrow> bool" where
  \<comment> \<open>the response is sent once, after every other effect\<close>
  "responds_last es =
     (es \<noteq> [] \<and> (case last es of Respond st b \<Rightarrow> True | _ \<Rightarrow> False) \<and> responses (butlast es) = [])"

section \<open>The status poller\<close>

definition maxRetries :: nat where
  "maxRetries = 3"

text \<open>
  One turn of the retry loop of \<^verbatim>\<open>GET /api/status/:id\<close>: it ends the request with a response,
  or the loop goes on with the next attempt, after a delay or at once.  The body of a
  non-success answer is parsed before the status is looked at, and on 500, 502 and 503 the
  handler reads \<^verbatim>\<open>errorData.error\<close> for its warning, which throws when the body is the JSON
  value \<^verbatim>\<open>null\<close>; both errors land in the \<^verbatim>\<open>catch\<close> block.
\<close>

datatype turn = Done effect | Again "nat option" failure

definition json_ws :: "char \<Rightarrow> bool" where
  \<comment> \<open>the white space \<^verbatim>\<open>JSON.parse\<close> allows around a value\<close>
  "json_ws c = (of_char c \<in> {9, 10, 13, 32 :: nat})"

definition is_null :: "json \<Rightarrow> bool" where
  \<comment> \<open>the text reads as the value \<^verbatim>\<open>null\<close>, the one JSON value a property access throws on\<close>
  "is_null j = (case j of Json t \<Rightarrow> rev (dropWhile json_ws (rev (dropWhile json_ws t))) = ''null'')"

definition status_catch :: "nat \<Rightarrow> failure \<Rightarrow> turn" where
  "status_catch attempt err =
     (if attempt < maxRetries \<and> (err_code err = Some ''ECONNRESET'' \<or> err_code err = Some ''ETIMEDOUT'')
      then Again (Some (1000 * attempt)) err
      else if attempt = maxRetries
      then Done (Respond 500 (ErrorBody ''Failed to retrieve video status after multiple attempts''
             (Some err) (Some True)))
      else Again None err)"

definition status_try :: "nat \<Rightarrow> reply \<Rightarrow> turn" where
  "status_try attempt rp =
     (case rp of
        Rejected c \<Rightarrow> status_catch attempt (Thrown c)
      | Reply st txt parsed \<Rightarrow>
          if \<not> ok st then
            (case parsed of
               None \<Rightarrow> status_catch attempt (Thrown None)
             | Some errorData \<Rightarrow>
                 if st = 500 \<or> st = 502 \<or> st = 503 then
                   (if is_null errorData then status_catch attempt (Thrown None)
                    else if attempt < maxRetries
                    then Again (Some (1000 * attempt)) (ServerError st attempt)
                    else status_catch attempt (RetrieveFailed st txt))
                 else status_catch attempt (RetrieveFailed st txt))
          else
            (case parsed of
               None \<Rightarrow> status_catch attempt (Thrown None)
             | Some j \<Rightarrow> Done (Respond 200 (Job j))))"

function poll_loop :: "(nat \<Rightarrow> reply) \<Rightarrow> string \<Rightarrow> nat \<Rightarrow> failure option \<Rightarrow> effect list" where
  "poll_loop remote vid attempt lastError =
     (if attempt \<le> maxRetries then
        Fetch (GetVideo vid) #
          (case status_try attempt (remote attempt) of
             Done e \<Rightarrow> [e]
           | Again None err \<Rightarrow> poll_loop remote vid (Suc attempt) (Some err)
           | Again (Some ms) err \<Rightarrow> Sleep ms # poll_loop remote vid (Suc attempt) (Some err))
      else [Respond 500 (ErrorBody ''Failed to retrieve video status'' lastError (Some True))])"
  by pat_completeness auto
termination
  by (relation "measure (\<lambda>(remote, vid, attempt, lastError). Suc maxRetries - attempt)") auto

declare poll_loop.simps [simp del]

definition api_status :: "bool \<Rightarrow> string \<Rightarrow> (nat \<Rightarrow> reply) \<Rightarrow> effect list" where
  "api_status hasOpenAI vid remote =
     (if \<not> hasOpenAI then [not_configured] else poll_loop remote vid 1 None)"

definition every_attempt :: "reply \<Rightarrow> nat \<Rightarrow> reply" where
  "every_attempt r attempt = r"

definition fatal_reply :: "reply \<Rightarrow> bool" where
  \<comment> \<open>a non-success status other than 500, 502 and 503\<close>
  "fatal_reply rp = (case rp of
       Rejected c \<Rightarrow> False
     | Reply st txt parsed \<Rightarrow> \<not> ok st \<and> st \<noteq> 500 \<and> st \<noteq> 502 \<and> st \<noteq> 503)"

section \<open>The remix requester\<close>

definition api_remix :: "bool \<Rightarrow> string option \<Rightarrow> string option \<Rightarrow> reply \<Rightarrow> effect list" where
  "api_remix hasOpenAI videoId prompt remote =
     (if \<not> hasOpenAI then [not_configured]
      else if str_falsy videoId \<or> str_falsy prompt
      then [Respond 400 (ErrorBody ''videoId and prompt are required for remix.'' None None)]
      else Fetch (RemixVideo (or_else videoId []) (or_else prompt [])) #
        (case remote of
           Rejected c \<Rightarrow> [Respond 500 (ErrorBody ''Failed to start remix job'' (Some (Thrown c)) None)]
         | Reply st txt parsed \<Rightarrow>
             if \<not> ok st
             then [Respond 500 (ErrorBody ''Failed to start remix job'' (Some (RemixFailed st txt)) None)]
             else (case parsed of
                 None \<Rightarrow> [Respond 500 (ErrorBody ''Failed to start remix job'' (Some (Thrown None)) None)]
               | Some j \<Rightarrow> [Respond 200 (Job j)])))"

section \<open>The job submitter\<close>

fun dec :: "nat \<Rightarrow> string" where
  \<comment> \<open>the decimal digits of a natural number, as \<^verbatim>\<open>String(n)\<close> and a template literal give them\<close>
  "dec n = (if n < 10 then [''0123456789'' ! n] else dec (n div 10) @ [''0123456789'' ! (n mod 10)])"

declare dec.simps [simp del]

definition basename :: "string \<Rightarrow> string" where
  \<comment> \<open>\<^verbatim>\<open>path.basename\<close>: trailing slashes are dropped, then what follows the last slash\<close>
  "basename p = rev (takeWhile (\<lambda>c. c \<noteq> CHR ''/'') (dropWhile (\<lambda>c. c = CHR ''/'') (rev p)))"

record create_args =
  prompt :: "string option"
  model :: "string option"
  seconds :: "string option"
  size_arg :: "string option"
  imagePath :: "string option"
  imageMime :: "string option"
  imageOriginalName :: "string option"

text \<open>
  The multipart form of \<^verbatim>\<open>callOpenAIVideoCreate\<close>, field by field in the order of the
  \<^verbatim>\<open>append\<close> calls; \<open>knownLength\<close> is the size \<^verbatim>\<open>fs.statSync\<close> reports for the image.
\<close>

definition create_form :: "create_args \<Rightarrow> nat \<Rightarrow> (string \<times> form_value) list" where
  "create_form a knownLength =
     (if str_falsy (prompt a) then [] else [(''prompt'', Text (or_else (prompt a) []))]) @
     [(''model'', Text (or_else (model a) ''sora-2''))] @
     (if str_falsy (seconds a) then [] else [(''seconds'', Text (or_else (seconds a) []))]) @
     [(''size'', Text (mapToValidSoraSize (or_else (size_arg a) ''720x1280'')))] @
     (if str_falsy (imagePath a) then []
      else [(''input_reference'',
              FileStream (or_else (imagePath a) [])
                (or_else (imageOriginalName a) (basename (or_else (imagePath a) [])))
                (or_else (imageMime a) ''image/jpeg'') knownLength)])"

definition callOpenAIVideoCreate ::
    "create_args \<Rightarrow> failure + nat \<Rightarrow> reply \<Rightarrow> effect list \<times> (failure + json)" where
  "callOpenAIVideoCreate a stat remote =
     (case (if str_falsy (imagePath a) then Inr 0 else stat) of
        Inl err \<Rightarrow> ([], Inl err)
      | Inr knownLength \<Rightarrow>
          ([Fetch (CreateVideo (create_form a knownLength))],
           (case remote of
              Rejected c \<Rightarrow> Inl (Thrown c)
            | Reply st txt parsed \<Rightarrow>
                if \<not> ok st then Inl (CreateFailed st txt)
                else (case parsed of None \<Rightarrow> Inl (Thrown None) | Some j \<Rightarrow> Inr j))))"

definition form_fields :: "string \<Rightarrow> (string \<times> form_value) list \<Rightarrow> form_value list" where
  "form_fields k form = map snd (filter (\<lambda>kv. fst kv = k) form)"

section \<open>The image preprocessor and the generate handler\<close>

record upload =
  path :: string
  mimetype :: string
  originalname :: string

record gen_request =
  req_file :: "upload option"
  body_prompt :: "string option"
  body_model :: "string option"
  body_seconds :: "string option"
  body_size :: "string option"
  body_imageUrl :: "string option"

text \<open>
  What the outside world answers during one \<^verbatim>\<open>POST /api/generate\<close>: the decoded
  dimensions (or the error of \<^verbatim>\<open>sharp\<close>), the clock, whether the resize fails, the size of
  the file sent, the remote reply; and, for an image given by URL, its download, the
  clock then, and whether writing it fails.
\<close>

record gen_env =
  hasOpenAI :: bool
  metadata :: "failure + (nat option \<times> nat option)"
  now :: nat
  resize_error :: "failure option"
  stat :: "failure + nat"
  remote :: reply
  image_reply :: "failure + (nat \<times> string option)"
  now_fetch :: nat
  write_error :: "failure option"

definition num_truthy :: "nat option \<Rightarrow> bool" where
  "num_truthy v = (case v of None \<Rightarrow> False | Some n \<Rightarrow> n \<noteq> 0)"

definition requested_size :: "string option \<Rightarrow> nat option \<Rightarrow> nat option \<Rightarrow> string" where
  "requested_size sz imageWidth imageHeight =
     (if str_falsy sz \<and> num_truthy imageWidth \<and> num_truthy imageHeight
      then dec (case imageWidth of Some n \<Rightarrow> n | None \<Rightarrow> 0) @ ''x'' @
           dec (case imageHeight of Some n \<Rightarrow> n | None \<Rightarrow> 0)
      else if str_falsy sz then ''720x1280''
      else or_else sz [])"

definition target_dims :: "string \<Rightarrow> jsnum option \<times> jsnum option" where
  \<comment> \<open>\<^verbatim>\<open>[targetWidth, targetHeight] = targetSize.split('x').map(Number)\<close>\<close>
  "target_dims targetSize =
     (case map Number_js (split_on CHR ''x'' targetSize) of
        [] \<Rightarrow> (None, None)
      | [w] \<Rightarrow> (Some w, None)
      | w # h # _ \<Rightarrow> (Some w, Some h))"

definition strict_ne :: "nat option \<Rightarrow> jsnum option \<Rightarrow> bool" where
  \<comment> \<open>\<^verbatim>\<open>a !== b\<close> for a decoded dimension and a parsed number, either possibly undefined\<close>
  "strict_ne a b = (case (a, b) of
       (None, None) \<Rightarrow> False
     | (Some n, Some x) \<Rightarrow> \<not> js_eq (js_int (int n)) x
     | _ \<Rightarrow> True)"

definition needs_resize :: "nat option \<Rightarrow> nat option \<Rightarrow> string \<Rightarrow> bool" where
  "needs_resize imageWidth imageHeight targetSize =
     (strict_ne imageWidth (fst (target_dims targetSize)) \<or>
      strict_ne imageHeight (snd (target_dims targetSize)))"

definition resized_path :: "nat \<Rightarrow> string \<Rightarrow> string" where
  "resized_path t src = ''uploads/'' @ ''resized_'' @ dec t @ ''_'' @ basename src"

text \<open>
  The preprocessing step of the handler, from the decoded dimensions to
  \<^verbatim>\<open>processedImagePath\<close>: the effects, the value of \<^verbatim>\<open>processedImagePath\<close> when the step is
  left (also when it is left by an error), and the error if there is one.
\<close>

definition prepare_image ::
    "string \<Rightarrow> nat option \<Rightarrow> nat option \<Rightarrow> string \<Rightarrow> nat \<Rightarrow> failure option
       \<Rightarrow> effect list \<times> string \<times> failure option" where
  "prepare_image src imageWidth imageHeight targetSize t resize_outcome =
     (if needs_resize imageWidth imageHeight targetSize
      then ([ResizeToFile src (resized_path t src)
               (fst (target_dims targetSize)) (snd (target_dims targetSize)) ''fill'' False],
            resized_path t src, resize_outcome)
      else ([], src, None))"

definition generate_failed :: "failure \<Rightarrow> effect" where
  "generate_failed err = Respond 500 (ErrorBody ''Failed to start video generation'' (Some err) None)"

text \<open>The handler of \<^verbatim>\<open>server.js\<close>: the image is an uploaded file.\<close>

definition generate_catch :: "upload \<Rightarrow> string option \<Rightarrow> failure \<Rightarrow> effect list" where
  "generate_catch f processedImagePath err =
     (if path f = [] then [] else [Unlink (path f)]) @
     (if \<not> str_falsy processedImagePath \<and> processedImagePath \<noteq> Some (path f)
      then [Unlink (or_else processedImagePath [])] else []) @
     [generate_failed err]"

definition generate_submit :: "gen_env \<Rightarrow> gen_request \<Rightarrow> upload \<Rightarrow> string \<Rightarrow> string \<Rightarrow> effect list" where
  "generate_submit env req f targetSize processedImagePath =
     (case callOpenAIVideoCreate
         \<lparr>prompt = body_prompt req, model = body_model req,
          seconds = Some (or_else (body_seconds req) ''8''), size_arg = Some targetSize,
          imagePath = Some processedImagePath, imageMime = Some (mimetype f),
          imageOriginalName = Some (originalname f)\<rparr> (stat env) (remote env) of
        (es, Inl err) \<Rightarrow> es @ generate_catch f (Some processedImagePath) err
      | (es, Inr videoJob) \<Rightarrow>
          es @ [Unlink (path f)] @
          (if processedImagePath \<noteq> path f then [Unlink processedImagePath] else []) @
          [Respond 200 (Job videoJob)])"

definition api_generate :: "gen_env \<Rightarrow> gen_request \<Rightarrow> effect list" where
  "api_generate env req =
     (if \<not> hasOpenAI env then [not_configured]
      else (case req_file req of
          None \<Rightarrow> [Respond 400 (ErrorBody ''Image file is required.'' None None)]
        | Some f \<Rightarrow>
            (case metadata env of
               Inl err \<Rightarrow> generate_catch f None err
             | Inr (imageWidth, imageHeight) \<Rightarrow>
                 (case prepare_image (path f) imageWidth imageHeight
                         (mapToValidSoraSize (requested_size (body_size req) imageWidth imageHeight))
                         (now env) (resize_error env) of
                    (es, processedImagePath, Some err) \<Rightarrow>
                      es @ generate_catch f (Some processedImagePath) err
                  | (es, processedImagePath, None) \<Rightarrow>
                      es @ generate_submit env req f
                        (mapToValidSoraSize (requested_size (body_size req) imageWidth imageHeight))
                        processedImagePath))))"

text \<open>
  The handler of the other revision of the server in the repository: the image is an
  uploaded file or is downloaded from \<^verbatim>\<open>imageUrl\<close> into a temporary file first.
\<close>

fun str_includes :: "string \<Rightarrow> string \<Rightarrow> bool" where
  "str_includes [] t = (t = [])"
| "str_includes (c # s) t = (take (length t) (c # s) = t \<or> str_includes s t)"

definition extension_of :: "string \<Rightarrow> string" where
  "extension_of contentType =
     (if str_includes contentType ''png'' then ''png''
      else if str_includes contentType ''webp'' then ''webp'' else ''jpg'')"

definition fetched_path :: "nat \<Rightarrow> string \<Rightarrow> string" where
  "fetched_path t extension = ''uploads/'' @ ''fetched_'' @ dec t @ ''.'' @ extension"

definition fetch_failed :: effect where
  "fetch_failed = Respond 400 (ErrorBody ''Failed to fetch character image from URL.'' None None)"

definition unlink_upload :: "upload option \<Rightarrow> effect list" where
  \<comment> \<open>\<^verbatim>\<open>if (file?.path) fs.unlink(file.path, ...)\<close>\<close>
  "unlink_upload f = (case f of None \<Rightarrow> [] | Some u \<Rightarrow> if path u = [] then [] else [Unlink (path u)])"

definition unlink_temp :: "string option \<Rightarrow> effect list" where
  \<comment> \<open>\<^verbatim>\<open>if (tempImagePath) fs.unlink(tempImagePath, ...)\<close>\<close>
  "unlink_temp tempImagePath =
     (if str_falsy tempImagePath then [] else [Unlink (or_else tempImagePath [])])"

definition generate_catch_url ::
    "upload option \<Rightarrow> string option \<Rightarrow> string option \<Rightarrow> failure \<Rightarrow> effect list" where
  "generate_catch_url f tempImagePath processedImagePath err =
     unlink_upload f @ unlink_temp tempImagePath @
     (if \<not> str_falsy processedImagePath \<and> processedImagePath \<noteq> map_option path f
         \<and> processedImagePath \<noteq> tempImagePath
      then [Unlink (or_else processedImagePath [])] else []) @
     [generate_failed err]"

definition generate_submit_url ::
    "gen_env \<Rightarrow> gen_request \<Rightarrow> upload option \<Rightarrow> string option \<Rightarrow> string \<Rightarrow> string \<Rightarrow> string
       \<Rightarrow> string \<Rightarrow> string \<Rightarrow> effect list" where
  "generate_submit_url env req f tempImagePath imgPath imageMimeType imgOriginalName
       targetSize processedImagePath =
     (case callOpenAIVideoCreate
         \<lparr>prompt = body_prompt req, model = body_model req,
          seconds = Some (or_else (body_seconds req) ''8''), size_arg = Some targetSize,
          imagePath = Some processedImagePath, imageMime = Some imageMimeType,
          imageOriginalName = Some imgOriginalName\<rparr> (stat env) (remote env) of
        (es, Inl err) \<Rightarrow> es @ generate_catch_url f tempImagePath (Some processedImagePath) err
      | (es, Inr videoJob) \<Rightarrow>
          es @ unlink_upload f @ unlink_temp tempImagePath @
          (if processedImagePath \<noteq> [] \<and> processedImagePath \<noteq> imgPath
           then [Unlink processedImagePath] else []) @
          [Respond 200 (Job videoJob)])"

definition generate_tail ::
    "gen_env \<Rightarrow> gen_request \<Rightarrow> upload option \<Rightarrow> string option \<Rightarrow> string \<Rightarrow> string \<Rightarrow> string
       \<Rightarrow> effect list" where
  "generate_tail env req f tempImagePath imgPath imageMimeType imgOriginalName =
     (case metadata env of
        Inl err \<Rightarrow> generate_catch_url f tempImagePath None err
      | Inr (imageWidth, imageHeight) \<Rightarrow>
          (case prepare_image imgPath imageWidth imageHeight
                  (mapToValidSoraSize (requested_size (body_size req) imageWidth imageHeight))
                  (now env) (resize_error env) of
             (es, processedImagePath, Some err) \<Rightarrow>
               es @ generate_catch_url f tempImagePath (Some processedImagePath) err
           | (es, processedImagePath, None) \<Rightarrow>
               es @ generate_submit_url env req f tempImagePath imgPath imageMimeType imgOriginalName
                 (mapToValidSoraSize (requested_size (body_size req) imageWidth imageHeight))
                 processedImagePath))"

definition api_generate_url :: "gen_env \<Rightarrow> gen_request \<Rightarrow> effect list" where
  "api_generate_url env req =
     (if \<not> hasOpenAI env then [not_configured]
      else if req_file req = None \<and> str_falsy (body_imageUrl req)
      then [Respond 400 (ErrorBody ''Image file or image URL is required.'' None None)]
      else (case req_file req of
          Some u \<Rightarrow> generate_tail env req (Some u) None (path u) (mimetype u) (originalname u)
        | None \<Rightarrow>
            Fetch (GetImage (or_else (body_imageUrl req) [])) #
            (case image_reply env of
               Inl err \<Rightarrow> [fetch_failed]
             | Inr (st, contentType) \<Rightarrow>
                 if \<not> ok st then [fetch_failed]
                 else
                   WriteFile (fetched_path (now_fetch env)
                       (extension_of (or_else contentType ''image/jpeg''))) #
                   (case write_error env of
                      Some err \<Rightarrow> [fetch_failed]
                    | None \<Rightarrow>
                        generate_tail env req None
                          (Some (fetched_path (now_fetch env)
                             (extension_of (or_else contentType ''image/jpeg''))))
                          (fetched_path (now_fetch env)
                             (extension_of (or_else contentType ''image/jpeg'')))
                          (or_else contentType ''image/jpeg'')
                          (''character.'' @ extension_of (or_else contentType ''image/jpeg''))))))"

section \<open>Rounding to the nearest double\<close>

lemma two_powi_pos: "0 < (2::rat) powi k"
  by (simp add: zero_less_power_int)

lemma two_powi_add: "(2::rat) powi (a + b) = 2 powi a * 2 powi b"
  by (simp add: power_int_add)

lemma two_powi_nat: "0 \<le> k \<Longrightarrow> (2::rat) powi k = 2 ^ nat k"
  by (simp add: power_int_def)

lemma two_powi_neg_nat: "k < 0 \<Longrightarrow> (2::rat) powi k = 1 / 2 ^ nat (- k)"
  by (simp add: power_int_def field_simps)




lemma floor_log2_upper:
  assumes "0 < n" "0 < d"
  shows "rat_of_int n / of_int d < 2 powi (floor_log2 n d + 1)"
proof -
  define k where "k = bitlen n - bitlen d"
  have bn: "n < 2 ^ nat (bitlen n)" and bd: "2 ^ nat (bitlen d - 1) \<le> d"
    using bitlen_bounds [OF assms(1)] bitlen_bounds [OF assms(2)] by simp_all
  have ld: "1 \<le> bitlen d" using assms(2) bitlen_eq_zero_iff [of d] bitlen_nonneg [of d] by linarith
  have dpos: "0 < rat_of_int d" using assms by simp
  have fl: "floor_log2 n d = (if (if 0 \<le> k then d * 2 ^ nat k \<le> n else d \<le> n * 2 ^ nat (- k)) then k else k - 1)"
    by (simp add: floor_log2_def k_def Let_def)
  have above: "rat_of_int n < 2 powi (k + 1) * of_int d"
  proof -
    have "rat_of_int n < of_int (2 ^ nat (bitlen n))" using bn by (simp only: of_int_less_iff)
    then have a: "rat_of_int n < 2 powi bitlen n" using bitlen_nonneg [of n] by (simp add: two_powi_nat)
    have "rat_of_int (2 ^ nat (bitlen d - 1)) \<le> of_int d" using bd by (simp only: of_int_le_iff)
    then have b: "(2::rat) powi (bitlen d - 1) \<le> of_int d" using ld by (simp add: two_powi_nat)
    have "(2::rat) powi bitlen n = 2 powi ((k + 1) + (bitlen d - 1))" by (simp add: k_def)
    also have "\<dots> = 2 powi (k + 1) * 2 powi (bitlen d - 1)" by (rule two_powi_add)
    also have "\<dots> \<le> 2 powi (k + 1) * of_int d"
      by (rule mult_left_mono [OF b less_imp_le [OF two_powi_pos]])
    finally show ?thesis using a by linarith
  qed
  show ?thesis
  proof (cases "if 0 \<le> k then d * 2 ^ nat k \<le> n else d \<le> n * 2 ^ nat (- k)")
    case True
    then show ?thesis unfolding fl using above dpos by (simp add: field_simps)
  next
    case False
    have "rat_of_int n < 2 powi k * of_int d"
    proof (cases "0 \<le> k")
      case k: True
      with False have "n < d * 2 ^ nat k" by simp
      then have "rat_of_int n < of_int (d * 2 ^ nat k)" by (simp only: of_int_less_iff)
      then show ?thesis using k by (simp add: two_powi_nat mult.commute)
    next
      case k: False
      with False have "n * 2 ^ nat (- k) < d" by simp
      then have "rat_of_int (n * 2 ^ nat (- k)) < of_int d" by (simp only: of_int_less_iff)
      then show ?thesis using k by (simp add: two_powi_neg_nat field_simps)
    qed
    then show ?thesis unfolding fl using False dpos by (simp add: field_simps)
  qed
qed





lemma is_fin_Fin [simp]: "is_fin (Fin m e)"
  by (simp add: is_fin_def)









section \<open>The catalog and the negotiator\<close>

lemmas num_eval = to_double_def round_frac_def expo_def mantissa_def pack_def floor_log2_def rne_div_def
  js_int_def Let_def compute_bitlen

lemma ratio_9_16: "js_div (js_int 9) (js_int 16) = Fin 5066549580791808 (- 53)"
  by (simp add: num_eval)

lemma ratio_16_9: "js_div (js_int 16) (js_int 9) = Fin 8006399337547548 (- 52)"
  by (simp add: num_eval)



lemma js_lt_irrefl: "\<not> js_lt x x"
  by (cases x) simp_all








lemmas parse_eval = Number_js_def numeric_literal_def trim_def is_ws_def radix_of_def
  signed_decimal_def unsigned_decimal_def frac_part_def exp_part_def is_digit_def digit_of_def
  digits_val_def all_digits_def scale10_def

lemma closest_size_two: "closest_size w h = ''720x1280'' \<or> closest_size w h = ''1280x720''"
  by (simp add: closest_size_def VALID_SORA_SIZES_def consider_size_def Let_def js_lt_irrefl)

lemma closest_size_portrait: "js_lt w h \<Longrightarrow> closest_size w h = ''720x1280''"
  by (simp add: closest_size_def VALID_SORA_SIZES_def consider_size_def Let_def js_lt_irrefl)

lemma negotiated_two:
  "mapToValidSoraSize s = ''720x1280'' \<or> mapToValidSoraSize s = ''1280x720''"
  using closest_size_two by (auto simp: mapToValidSoraSize_def split: list.splits)

lemma catalog_names: "map name VALID_SORA_SIZES = [''720x1280'', ''1280x720'', ''1024x1792'', ''1792x1024'']"
  by (simp add: VALID_SORA_SIZES_def)

lemma parse_720: "Number_js ''720'' = Fin 6333186975989760 (- 43)"
  by (simp add: parse_eval num_eval)

lemma parse_1280: "Number_js ''1280'' = Fin 5629499534213120 (- 42)"
  by (simp add: parse_eval num_eval)

lemma parse_1024: "Number_js ''1024'' = Fin 4503599627370496 (- 42)"
  by (simp add: parse_eval num_eval)

lemma parse_1792: "Number_js ''1792'' = Fin 7881299347898368 (- 42)"
  by (simp add: parse_eval num_eval)





subsection \<open>The model on examples\<close>

text \<open>
  The rounding at the edges of the double range, \<^verbatim>\<open>Number\<close> on some strings, and the examples
  of the specification and of \<^verbatim>\<open>docs/VIDEO_SIZES.md\<close>.  The last one shows absorption: for a
  ratio of \<open>10\<^sup>2\<^sup>0\<close> both differences round to the ratio itself, and the first entry stays.
\<close>

lemmas negotiate_eval = mapToValidSoraSize_def closest_size_def VALID_SORA_SIZES_def
  consider_size_def ratio_9_16 ratio_16_9

lemma Number_js_examples:
  "Number_js '''' = Fin 0 0"
  "Number_js ''bogus'' = NaN"
  "Number_js '' 12 '' = Fin 6755399441055744 (- 49)"
  "Number_js ''0X1f'' = Fin 8725724278030336 (- 48)"
  "Number_js ''-Infinity'' = NInf"
  "Number_js ''1.5e3'' = Fin 6597069766656000 (- 42)"
  "Number_js ''.'' = NaN"
  "Number_js ''1e'' = NaN"
  "Number_js ''0.1'' = Fin 7205759403792794 (- 56)"
  by (simp_all add: parse_eval num_eval)

lemma to_double_examples:
  "to_double 1 1 1024 = PInf"
  "to_double 9007199254740991 1 971 = Fin 9007199254740991 971"
  "to_double 18014398509481983 1 970 = PInf"
  "to_double 1 1 (- 1075) = Fin 0 (- 1074)"
  "to_double 3 1 (- 1076) = Fin 1 (- 1074)"
  "to_double 1 10 0 = Fin 7205759403792794 (- 56)"
  "to_double (- 1) 3 0 = Fin (- 6004799503160661) (- 54)"
  by (simp_all add: num_eval)

lemma negotiate_examples:
  "mapToValidSoraSize ''1080x1920'' = ''720x1280''"
  "mapToValidSoraSize ''1920x1080'' = ''1280x720''"
  "mapToValidSoraSize ''bogus'' = ''720x1280''"
  "mapToValidSoraSize ''2560x1440'' = ''1280x720''"
  "mapToValidSoraSize ''1100x1000'' = ''720x1280''"
  "mapToValidSoraSize ''720'' = ''720x1280''"
  "mapToValidSoraSize ''0x5'' = ''720x1280''"
  by (simp_all add: negotiate_eval parse_eval num_eval)

lemma negotiate_absorption: "mapToValidSoraSize ''100000000000000000000x1'' = ''720x1280''"
  by (simp add: negotiate_eval parse_eval num_eval)

text \<open>
  Claim C10.  Whatever the input string, \<^verbatim>\<open>mapToValidSoraSize\<close> returns \<^verbatim>\<open>720x1280\<close> or
  \<^verbatim>\<open>1280x720\<close>, never \<^verbatim>\<open>1024x1792\<close> or \<^verbatim>\<open>1792x1024\<close>: the third and fourth
  entries store the ratios of the first and second, and an entry replaces the best one only
  on a strictly smaller difference.
\<close>

theorem mapToValidSoraSize_two_results:
  "(mapToValidSoraSize s = ''720x1280'' \<or> mapToValidSoraSize s = ''1280x720'')
   \<and> mapToValidSoraSize s \<noteq> ''1024x1792'' \<and> mapToValidSoraSize s \<noteq> ''1792x1024''
   \<and> ratio (VALID_SORA_SIZES ! 2) = ratio (VALID_SORA_SIZES ! 0)
   \<and> ratio (VALID_SORA_SIZES ! 3) = ratio (VALID_SORA_SIZES ! 1)"
  using negotiated_two [of s] by (auto simp: VALID_SORA_SIZES_def)

section \<open>The job submitter sends a negotiated size\<close>

text \<open>
  Claim C1.  Whenever \<^verbatim>\<open>callOpenAIVideoCreate\<close> has no image to attach, or the size of the
  image can be read, it makes exactly one request, and the form of that request has exactly
  one \<^verbatim>\<open>size\<close> field, the result of \<^verbatim>\<open>mapToValidSoraSize\<close> on the requested size
  (\<^verbatim>\<open>720x1280\<close> when there is none), and exactly one \<^verbatim>\<open>model\<close> field, \<^verbatim>\<open>sora-2\<close> when no
  model is given.  When the size of the image cannot be read the function throws and makes
  no request.  A job is returned only after that one request; every request the function
  makes carries such a form; and the size sent is a name of the catalog.
\<close>

theorem callOpenAIVideoCreate_sends_negotiated_size:
  "(str_falsy (imagePath a) \<or> (\<exists>n. st = Inr n) \<longrightarrow>
      (\<exists>k. fst (callOpenAIVideoCreate a st r) = [Fetch (CreateVideo (create_form a k))]
         \<and> form_fields ''size'' (create_form a k) =
             [Text (mapToValidSoraSize (or_else (size_arg a) ''720x1280''))]
         \<and> form_fields ''model'' (create_form a k) = [Text (or_else (model a) ''sora-2'')]))
   \<and> (\<not> str_falsy (imagePath a) \<and> st = Inl e \<longrightarrow> callOpenAIVideoCreate a st r = ([], Inl e))
   \<and> ((\<exists>j. snd (callOpenAIVideoCreate a st r) = Inr j) \<longrightarrow>
        (\<exists>k. fst (callOpenAIVideoCreate a st r) = [Fetch (CreateVideo (create_form a k))]))
   \<and> (\<forall>q \<in> set (requests (fst (callOpenAIVideoCreate a st r))).
        \<exists>form. q = CreateVideo form
          \<and> form_fields ''size'' form = [Text (mapToValidSoraSize (or_else (size_arg a) ''720x1280''))]
          \<and> form_fields ''model'' form = [Text (or_else (model a) ''sora-2'')])
   \<and> mapToValidSoraSize (or_else (size_arg a) ''720x1280'') \<in> set (map name VALID_SORA_SIZES)"
proof -
  have sz: "form_fields ''size'' (create_form a k) =
      [Text (mapToValidSoraSize (or_else (size_arg a) ''720x1280''))]" for k
    by (simp add: form_fields_def create_form_def)
  have md: "form_fields ''model'' (create_form a k) = [Text (or_else (model a) ''sora-2'')]" for k
    by (simp add: form_fields_def create_form_def)
  have sent: "\<exists>k. fst (callOpenAIVideoCreate a st r) = [Fetch (CreateVideo (create_form a k))]"
    if "str_falsy (imagePath a) \<or> (\<exists>n. st = Inr n)"
    using that by (auto simp: callOpenAIVideoCreate_def)
  have thrown: "callOpenAIVideoCreate a st r = ([], Inl e)"
    if "\<not> str_falsy (imagePath a)" "st = Inl e"
    using that by (simp add: callOpenAIVideoCreate_def)
  have job: "\<exists>k. fst (callOpenAIVideoCreate a st r) = [Fetch (CreateVideo (create_form a k))]"
    if "snd (callOpenAIVideoCreate a st r) = Inr j" for j
    using that by (auto simp: callOpenAIVideoCreate_def split: sum.splits if_splits)
  have every: "\<exists>k. q = CreateVideo (create_form a k)"
    if "q \<in> set (requests (fst (callOpenAIVideoCreate a st r)))" for q
    using that by (auto simp: callOpenAIVideoCreate_def split: sum.splits if_splits)
  have cat: "mapToValidSoraSize (or_else (size_arg a) ''720x1280'') \<in> set (map name VALID_SORA_SIZES)"
    using negotiated_two [of "or_else (size_arg a) ''720x1280''"] by (auto simp: catalog_names)
  show ?thesis
  proof (intro conjI impI ballI)
    assume "str_falsy (imagePath a) \<or> (\<exists>n. st = Inr n)"
    then obtain k where "fst (callOpenAIVideoCreate a st r) = [Fetch (CreateVideo (create_form a k))]"
      using sent by blast
    then show "\<exists>k. fst (callOpenAIVideoCreate a st r) = [Fetch (CreateVideo (create_form a k))]
        \<and> form_fields ''size'' (create_form a k) =
            [Text (mapToValidSoraSize (or_else (size_arg a) ''720x1280''))]
        \<and> form_fields ''model'' (create_form a k) = [Text (or_else (model a) ''sora-2'')]"
      using sz [of k] md [of k] by blast
  next
    assume "\<not> str_falsy (imagePath a) \<and> st = Inl e"
    then show "callOpenAIVideoCreate a st r = ([], Inl e)"
      using thrown by blast
  next
    assume "\<exists>j. snd (callOpenAIVideoCreate a st r) = Inr j"
    then show "\<exists>k. fst (callOpenAIVideoCreate a st r) = [Fetch (CreateVideo (create_form a k))]"
      using job by blast
  next
    fix q assume "q \<in> set (requests (fst (callOpenAIVideoCreate a st r)))"
    then obtain k where "q = CreateVideo (create_form a k)"
      using every by blast
    then show "\<exists>form. q = CreateVideo form
        \<and> form_fields ''size'' form = [Text (mapToValidSoraSize (or_else (size_arg a) ''720x1280''))]
        \<and> form_fields ''model'' form = [Text (or_else (model a) ''sora-2'')]"
      using sz [of k] md [of k] by blast
  next
    show "mapToValidSoraSize (or_else (size_arg a) ''720x1280'') \<in> set (map name VALID_SORA_SIZES)"
      by (rule cat)
  qed
qed

theorem callOpenAIVideoCreate_witness:
  "(\<exists>n. (Inr 2048 :: failure + nat) = Inr n)
   \<and> fst (callOpenAIVideoCreate
        \<lparr>prompt = Some ''a cat'', model = None, seconds = Some ''8'', size_arg = Some ''1920x1080'',
         imagePath = Some ''uploads/cat.png'', imageMime = None, imageOriginalName = Some ''cat.png''\<rparr>
        (Inr 2048) (Reply 200 ''{}'' (Some (Json ''{}''))))
     = [Fetch (CreateVideo
          [(''prompt'', Text ''a cat''), (''model'', Text ''sora-2''), (''seconds'', Text ''8''),
           (''size'', Text ''1280x720''),
           (''input_reference'', FileStream ''uploads/cat.png'' ''cat.png'' ''image/jpeg'' 2048)])]
   \<and> snd (callOpenAIVideoCreate
        \<lparr>prompt = Some ''a cat'', model = None, seconds = Some ''8'', size_arg = Some ''1920x1080'',
         imagePath = Some ''uploads/cat.png'', imageMime = None, imageOriginalName = Some ''cat.png''\<rparr>
        (Inr 2048) (Reply 200 ''{}'' (Some (Json ''{}''))))
     = Inr (Json ''{}'')"
proof -
  have m: "mapToValidSoraSize ''1920x1080'' = ''1280x720''"
    by (rule negotiate_examples(2))
  show ?thesis
    using callOpenAIVideoCreate_sends_negotiated_size
      [of "\<lparr>prompt = Some ''a cat'', model = None, seconds = Some ''8'', size_arg = Some ''1920x1080'',
         imagePath = Some ''uploads/cat.png'', imageMime = None, imageOriginalName = Some ''cat.png''\<rparr>"
        "Inr 2048" "Reply 200 ''{}'' (Some (Json ''{}''))"]
    by (simp add: callOpenAIVideoCreate_def create_form_def str_falsy_def or_else_def ok_def m)
qed

section \<open>Catalog members under the negotiator\<close>

lemma portrait_1024_1792: "js_lt (Number_js ''1024'') (Number_js ''1792'')"
  by (simp add: parse_1024 parse_1792)

lemma landscape_result_1792_1024: "mapToValidSoraSize ''1792x1024'' = ''1280x720''"
  by (simp add: mapToValidSoraSize_def parse_1024 parse_1792 closest_size_def VALID_SORA_SIZES_def
      consider_size_def ratio_9_16 ratio_16_9 num_eval)

text \<open>
  Claim C7.  Applying \<^verbatim>\<open>mapToValidSoraSize\<close> twice to a catalog name gives what applying it
  once gives, but not every catalog name is mapped to itself: \<^verbatim>\<open>1024x1792\<close> is mapped to
  \<^verbatim>\<open>720x1280\<close> and \<^verbatim>\<open>1792x1024\<close> to \<^verbatim>\<open>1280x720\<close>.  The theorem evaluates the function
  on the four names.
\<close>

theorem large_sizes_not_fixed:
  "mapToValidSoraSize ''1024x1792'' = ''720x1280''
   \<and> mapToValidSoraSize ''1792x1024'' = ''1280x720''
   \<and> mapToValidSoraSize ''720x1280'' = ''720x1280''
   \<and> mapToValidSoraSize ''1280x720'' = ''1280x720''
   \<and> mapToValidSoraSize (mapToValidSoraSize ''1024x1792'') = mapToValidSoraSize ''1024x1792''
   \<and> mapToValidSoraSize (mapToValidSoraSize ''1792x1024'') = mapToValidSoraSize ''1792x1024''"
proof -
  have a: "mapToValidSoraSize ''1024x1792'' = ''720x1280''"
    by (simp add: mapToValidSoraSize_def parse_1024 parse_1792 closest_size_portrait)
  have b: "mapToValidSoraSize ''720x1280'' = ''720x1280''"
    by (simp add: mapToValidSoraSize_def parse_720 parse_1280 closest_size_portrait)
  have c: "mapToValidSoraSize ''1280x720'' = ''1280x720''"
    by (simp add: mapToValidSoraSize_def parse_720 parse_1280 closest_size_def VALID_SORA_SIZES_def
      consider_size_def ratio_9_16 ratio_16_9 num_eval)
  show ?thesis
    by (simp add: a b c landscape_result_1792_1024)
qed

text \<open>
  Claim C8.  The catalog has four entries, portrait and landscape in turn.  The stored ratio
  of the first two entries is their width divided by their height; that of
  \<^verbatim>\<open>1024x1792\<close> and \<^verbatim>\<open>1792x1024\<close> is not (\<open>9/16\<close> and \<open>16/9\<close> are stored, the quotients are
  \<open>4/7\<close> and \<open>7/4\<close>), and the stored ratios are equal in pairs.
\<close>

theorem catalog_ratio_fields:
  "length VALID_SORA_SIZES = 4
   \<and> map (\<lambda>v. width v < height v) VALID_SORA_SIZES = [True, False, True, False]
   \<and> js_eq (ratio (VALID_SORA_SIZES ! 0)) (js_div (js_int 720) (js_int 1280))
   \<and> js_eq (ratio (VALID_SORA_SIZES ! 1)) (js_div (js_int 1280) (js_int 720))
   \<and> \<not> js_eq (ratio (VALID_SORA_SIZES ! 2)) (js_div (js_int 1024) (js_int 1792))
   \<and> \<not> js_eq (ratio (VALID_SORA_SIZES ! 3)) (js_div (js_int 1792) (js_int 1024))
   \<and> js_eq (ratio (VALID_SORA_SIZES ! 2)) (ratio (VALID_SORA_SIZES ! 0))
   \<and> js_eq (ratio (VALID_SORA_SIZES ! 3)) (ratio (VALID_SORA_SIZES ! 1))"
proof -
  have "js_div (js_int 720) (js_int 1280) = Fin 5066549580791808 (- 53)"
    by (simp add: num_eval)
  moreover have "js_div (js_int 1280) (js_int 720) = Fin 8006399337547548 (- 52)"
    by (simp add: num_eval)
  moreover have "js_div (js_int 1024) (js_int 1792) = Fin 5146971002709138 (- 53)"
    by (simp add: num_eval)
  moreover have "js_div (js_int 1792) (js_int 1024) = Fin 7881299347898368 (- 52)"
    by (simp add: num_eval)
  ultimately show ?thesis
    by (simp add: VALID_SORA_SIZES_def ratio_9_16 ratio_16_9)
qed

section \<open>Orientation\<close>










section \<open>The retry loop of the status poller\<close>

lemma poll_loop_past: "poll_loop rs vid 4 e = [Respond 500 (ErrorBody ''Failed to retrieve video status'' e (Some True))]"
  by (subst poll_loop.simps) (simp add: maxRetries_def)

lemma poll_loop_step:
  "attempt \<le> 3 \<Longrightarrow> poll_loop rs vid attempt e =
     Fetch (GetVideo vid) #
       (case status_try attempt (rs attempt) of
          Done x \<Rightarrow> [x]
        | Again None err \<Rightarrow> poll_loop rs vid (Suc attempt) (Some err)
        | Again (Some ms) err \<Rightarrow> Sleep ms # poll_loop rs vid (Suc attempt) (Some err))"
  by (subst poll_loop.simps) (simp add: maxRetries_def)

lemma poll_loop_3: "poll_loop rs vid 3 e =
     Fetch (GetVideo vid) #
       (case status_try 3 (rs 3) of
          Done x \<Rightarrow> [x]
        | Again None err \<Rightarrow> poll_loop rs vid 4 (Some err)
        | Again (Some ms) err \<Rightarrow> Sleep ms # poll_loop rs vid 4 (Some err))"
proof -
  have s: "Suc 3 = 4" by simp
  show ?thesis using poll_loop_step [of 3 rs vid e] unfolding s by simp
qed

lemma poll_loop_2: "poll_loop rs vid 2 e =
     Fetch (GetVideo vid) #
       (case status_try 2 (rs 2) of
          Done x \<Rightarrow> [x]
        | Again None err \<Rightarrow> poll_loop rs vid 3 (Some err)
        | Again (Some ms) err \<Rightarrow> Sleep ms # poll_loop rs vid 3 (Some err))"
proof -
  have s: "Suc 2 = 3" by simp
  show ?thesis using poll_loop_step [of 2 rs vid e] unfolding s by simp
qed

lemma poll_loop_1: "poll_loop rs vid 1 e =
     Fetch (GetVideo vid) #
       (case status_try 1 (rs 1) of
          Done x \<Rightarrow> [x]
        | Again None err \<Rightarrow> poll_loop rs vid 2 (Some err)
        | Again (Some ms) err \<Rightarrow> Sleep ms # poll_loop rs vid 2 (Some err))"
proof -
  have s: "Suc 1 = 2" by simp
  show ?thesis using poll_loop_step [of 1 rs vid e] unfolding s by (simp del: One_nat_def)
qed

lemmas poll_eval = api_status_def poll_loop_1 poll_loop_2 poll_loop_3 poll_loop_past
  maxRetries_def status_try_def status_catch_def ok_def every_attempt_def

lemma status_try_5xx:
  assumes "st = 500 \<or> st = 502 \<or> st = 503" "\<not> is_null j"
  shows "status_try attempt (Reply st txt (Some j)) =
     (if attempt < 3 then Again (Some (1000 * attempt)) (ServerError st attempt)
      else status_catch attempt (RetrieveFailed st txt))"
  using assms by (auto simp: status_try_def ok_def maxRetries_def)

lemma status_try_5xx_null:
  assumes "st = 500 \<or> st = 502 \<or> st = 503" "is_null j"
  shows "status_try attempt (Reply st txt (Some j)) = status_catch attempt (Thrown None)"
  using assms by (auto simp: status_try_def ok_def)

lemma status_try_fatal:
  assumes "fatal_reply (Reply st txt p)"
  shows "status_try attempt (Reply st txt p) =
     status_catch attempt (case p of None \<Rightarrow> Thrown None | Some j \<Rightarrow> RetrieveFailed st txt)"
  using assms by (auto simp: status_try_def fatal_reply_def split: option.splits)

lemma status_try_ok:
  assumes "ok st"
  shows "status_try attempt (Reply st txt (Some j)) = Done (Respond 200 (Job j))"
  using assms by (simp add: status_try_def)

lemma status_catch_plain:
  "status_catch 1 (Thrown None) = Again None (Thrown None)"
  "status_catch 2 (Thrown None) = Again None (Thrown None)"
  "status_catch 3 e = Done (Respond 500 (ErrorBody ''Failed to retrieve video status after multiple attempts''
             (Some e) (Some True)))"
  "status_catch 1 (RetrieveFailed st txt) = Again None (RetrieveFailed st txt)"
  "status_catch 2 (RetrieveFailed st txt) = Again None (RetrieveFailed st txt)"
  by (simp_all add: status_catch_def maxRetries_def del: One_nat_def)

lemmas loop_eval = api_status_def poll_loop_1 poll_loop_2 poll_loop_3 poll_loop_past every_attempt_def

lemma poll_5xx_json:
  assumes "\<And>k. rs k = Reply (st k) (txt k) (Some (j k))"
    and "\<And>k. st k = 500 \<or> st k = 502 \<or> st k = 503"
    and "\<And>k. \<not> is_null (j k)"
  shows "api_status True vid rs =
     [Fetch (GetVideo vid), Sleep 1000, Fetch (GetVideo vid), Sleep 2000, Fetch (GetVideo vid),
      Respond 500 (ErrorBody ''Failed to retrieve video status after multiple attempts''
        (Some (RetrieveFailed (st 3) (txt 3))) (Some True))]"
  by (simp add: loop_eval assms(1) status_try_5xx [OF assms(2) assms(3)] status_catch_plain
        del: One_nat_def)

lemma poll_5xx_then_success:
  assumes "rs 1 = Reply s1 t1 (Some j1)" "s1 = 500 \<or> s1 = 502 \<or> s1 = 503" "\<not> is_null j1"
    and "rs 2 = Reply s2 t2 (Some j2)" "s2 = 500 \<or> s2 = 502 \<or> s2 = 503" "\<not> is_null j2"
    and "rs 3 = Reply s3 t3 (Some j3)" "ok s3"
  shows "api_status True vid rs =
     [Fetch (GetVideo vid), Sleep 1000, Fetch (GetVideo vid), Sleep 2000, Fetch (GetVideo vid),
      Respond 200 (Job j3)]"
  by (simp add: loop_eval assms(1,4,7) status_try_5xx [OF assms(2) assms(3)]
        status_try_5xx [OF assms(5) assms(6)] status_try_ok [OF assms(8)] del: One_nat_def)

lemma is_null_examples:
  "is_null (Json ''null'')"
  "is_null (Json '' null '')"
  "\<not> is_null (Json ''{}'')"
  "\<not> is_null (Json ''0'')"
  by (simp_all add: is_null_def json_ws_def)

lemma poll_5xx_null_body:
  assumes "st = 500 \<or> st = 502 \<or> st = 503"
  shows "api_status True vid (every_attempt (Reply st ''null'' (Some (Json ''null'')))) =
     [Fetch (GetVideo vid), Fetch (GetVideo vid), Fetch (GetVideo vid),
      Respond 500 (ErrorBody ''Failed to retrieve video status after multiple attempts''
        (Some (Thrown None)) (Some True))]"
  by (simp add: loop_eval status_try_5xx_null [OF assms is_null_examples(1)] status_catch_plain
        del: One_nat_def)

lemma poll_fatal_status_all_attempts:
  assumes "rs 1 = Reply s1 t1 p1" "fatal_reply (rs 1)"
    and "rs 2 = Reply s2 t2 p2" "fatal_reply (rs 2)"
    and "rs 3 = Reply s3 t3 p3" "fatal_reply (rs 3)"
  shows "api_status True vid rs =
     [Fetch (GetVideo vid), Fetch (GetVideo vid), Fetch (GetVideo vid),
      Respond 500 (ErrorBody ''Failed to retrieve video status after multiple attempts''
        (Some (case p3 of None \<Rightarrow> Thrown None | Some j \<Rightarrow> RetrieveFailed s3 t3)) (Some True))]"
proof -
  have a: "status_try 1 (rs 1) = Again None (case p1 of None \<Rightarrow> Thrown None | Some j \<Rightarrow> RetrieveFailed s1 t1)"
    using assms(2) unfolding assms(1)
    by (simp add: status_try_fatal status_catch_plain split: option.splits del: One_nat_def)
  have b: "status_try 2 (rs 2) = Again None (case p2 of None \<Rightarrow> Thrown None | Some j \<Rightarrow> RetrieveFailed s2 t2)"
    using assms(4) unfolding assms(3)
    by (simp add: status_try_fatal status_catch_plain split: option.splits)
  have c: "status_try 3 (rs 3) = Done (Respond 500 (ErrorBody ''Failed to retrieve video status after multiple attempts''
        (Some (case p3 of None \<Rightarrow> Thrown None | Some j \<Rightarrow> RetrieveFailed s3 t3)) (Some True)))"
    using assms(6) unfolding assms(5)
    by (simp add: status_try_fatal status_catch_plain)
  show ?thesis
    by (simp add: api_status_def poll_loop_1 poll_loop_2 poll_loop_3 a b c del: One_nat_def)
qed

text \<open>
  Claim C2.  With error bodies that are JSON values other than \<^verbatim>\<open>null\<close> the poller does what
  the claim says (\<open>poll_5xx_json\<close>, \<open>poll_5xx_then_success\<close>).  With a body that is not JSON,
  as a gateway sends with a 503, \<^verbatim>\<open>JSON.parse\<close> throws before the status is looked at: the
  three attempts follow each other with no delay.  The theorem evaluates the handler there.
  The body \<^verbatim>\<open>null\<close> has the same effect (\<open>poll_5xx_null_body\<close>).
\<close>

theorem poll_503_plain_body_no_backoff:
  "api_status True vid (every_attempt (Reply 503 ''Service Unavailable'' None)) =
     [Fetch (GetVideo vid), Fetch (GetVideo vid), Fetch (GetVideo vid),
      Respond 500 (ErrorBody ''Failed to retrieve video status after multiple attempts''
        (Some (Thrown None)) (Some True))]
   \<and> delays (api_status True vid (every_attempt (Reply 503 ''Service Unavailable'' None))) = []"
  by (simp add: poll_eval del: One_nat_def)

text \<open>
  Claim C3.  When the remote service answers 404, the \<^verbatim>\<open>catch\<close> block ends the request only
  at the last attempt, though its comment reads ``if it's the last attempt or a
  non-retryable error, fail''.  The theorem evaluates the handler there: three requests with
  no delay between them, then one response, with status 500 and \<^verbatim>\<open>retryable: true\<close>.  The same
  holds for every non-success status other than 500, 502 and 503
  (\<open>poll_fatal_status_all_attempts\<close>).
\<close>

theorem poll_404_three_attempts:
  "api_status True vid (every_attempt (Reply 404 ''{}'' (Some (Json ''{}'')))) =
     [Fetch (GetVideo vid), Fetch (GetVideo vid), Fetch (GetVideo vid),
      Respond 500 (ErrorBody ''Failed to retrieve video status after multiple attempts''
        (Some (RetrieveFailed 404 ''{}'')) (Some True))]
   \<and> requests (api_status True vid (every_attempt (Reply 404 ''{}'' (Some (Json ''{}''))))) =
     [GetVideo vid, GetVideo vid, GetVideo vid]
   \<and> map (\<lambda>r. retryable (snd r))
       (responses (api_status True vid (every_attempt (Reply 404 ''{}'' (Some (Json ''{}'')))))) =
     [Some True]"
  by (simp add: poll_eval del: One_nat_def)

section \<open>Validation in the remix requester\<close>

text \<open>
  Claim C9, as stated, fails: without an API key the handler answers 503, not 400, also
  when \<^verbatim>\<open>videoId\<close> is missing.
\<close>

theorem remix_unconfigured_answers_503:
  "api_remix False None (Some ''make it rain'') (Rejected None) =
     [Respond 503 (ErrorBody
       ''OpenAI API key not configured. Please set OPENAI_API_KEY environment variable.'' None None)]"
  by (simp add: api_remix_def not_configured_def)

text \<open>
  Claim C9, amended.  When \<^verbatim>\<open>videoId\<close> or \<^verbatim>\<open>prompt\<close> is missing the handler makes no
  remote request; its only effect is the response, the 400 validation error when the API
  key is configured and the 503 of the configuration check otherwise.
\<close>

theorem remix_missing_argument_no_request:
  assumes "str_falsy videoId \<or> str_falsy p"
  shows "requests (api_remix cfg videoId p r) = []
    \<and> api_remix cfg videoId p r =
        (if cfg then [Respond 400 (ErrorBody ''videoId and prompt are required for remix.'' None None)]
         else [not_configured])"
  using assms by (auto simp: api_remix_def not_configured_def)

theorem remix_missing_argument_witness:
  "str_falsy None
   \<and> requests (api_remix True None (Some ''make it rain'') (Rejected None)) = []
   \<and> api_remix True None (Some ''make it rain'') (Rejected None) =
       [Respond 400 (ErrorBody ''videoId and prompt are required for remix.'' None None)]"
  using remix_missing_argument_no_request [of None "Some ''make it rain''" True "Rejected None"]
  by (simp add: str_falsy_def)

section \<open>The image preprocessor\<close>











lemma basename_no_slash: "CHR ''/'' \<notin> set (basename p)"
  using set_takeWhileD by (fastforce simp: basename_def)

lemma basename_after_prefix:
  assumes "P \<noteq> []" "last P \<noteq> CHR ''/''"
  shows "P @ basename p \<noteq> p"
proof
  assume eq: "P @ basename p = p"
  define b where "b = basename p"
  have p: "p = P @ b" using eq by (simp add: b_def)
  have rp: "rev p = rev b @ rev P" by (subst p) simp
  have nb: "CHR ''/'' \<notin> set b" unfolding b_def by (rule basename_no_slash)
  have "rev p \<noteq> [] \<and> hd (rev p) \<noteq> CHR ''/''"
  proof (cases b rule: rev_cases)
    case Nil
    then show ?thesis using assms by (simp add: rp hd_rev)
  next
    case (snoc cs c)
    then show ?thesis using nb by (auto simp: rp)
  qed
  then have dw: "dropWhile (\<lambda>c. c = CHR ''/'') (rev p) = rev p"
    by (cases "rev p") simp_all
  have "b = rev (takeWhile (\<lambda>c. c \<noteq> CHR ''/'') (rev p))"
    unfolding b_def basename_def dw ..
  also have "\<dots> = rev (takeWhile (\<lambda>c. c \<noteq> CHR ''/'') (rev b @ rev P))"
    unfolding rp ..
  also have "takeWhile (\<lambda>c. c \<noteq> CHR ''/'') (rev b @ rev P)
      = rev b @ takeWhile (\<lambda>c. c \<noteq> CHR ''/'') (rev P)"
    by (rule takeWhile_append2) (use nb in auto)
  finally have "b = rev (rev b @ takeWhile (\<lambda>c. c \<noteq> CHR ''/'') (rev P))" .
  then have "takeWhile (\<lambda>c. c \<noteq> CHR ''/'') (rev P) = []" by simp
  moreover have "takeWhile (\<lambda>c. c \<noteq> CHR ''/'') (rev P) \<noteq> []"
    using assms by (cases P rule: rev_cases) simp_all
  ultimately show False by simp
qed

lemma resized_path_fresh: "resized_path t src \<noteq> src"
proof -
  have "(''uploads/'' @ ''resized_'' @ dec t @ ''_'') @ basename src \<noteq> src"
    by (rule basename_after_prefix) simp_all
  then show ?thesis by (simp add: resized_path_def)
qed


lemma written_append: "written (xs @ ys) = written xs @ written ys"
  by (induction xs rule: written.induct) simp_all

lemma unlinked_append: "unlinked (xs @ ys) = unlinked xs @ unlinked ys"
  by (induction xs rule: unlinked.induct) simp_all

lemma responses_append: "responses (xs @ ys) = responses xs @ responses ys"
  by (induction xs rule: responses.induct) simp_all

lemma create_effects:
  "fst (callOpenAIVideoCreate a st r) = [] \<or> (\<exists>k. fst (callOpenAIVideoCreate a st r) = [Fetch (CreateVideo (create_form a k))])"
  by (auto simp: callOpenAIVideoCreate_def split: sum.splits)

lemma create_no_files:
  "written (fst (callOpenAIVideoCreate a st r)) = [] \<and> unlinked (fst (callOpenAIVideoCreate a st r)) = []
   \<and> responses (fst (callOpenAIVideoCreate a st r)) = []"
  using create_effects [of a st r] by auto






section \<open>Temporary files of the generate handler\<close>

lemma responds_last_snoc: "responses pre = [] \<Longrightarrow> responds_last (pre @ [Respond st b])"
  by (simp add: responds_last_def)

lemma responds_last_append: "responds_last ys \<Longrightarrow> responses xs = [] \<Longrightarrow> responds_last (xs @ ys)"
  by (simp add: responds_last_def butlast_append responses_append)

lemma responds_last_silent:
  "responses xs = [] \<Longrightarrow> ys \<noteq> [] \<Longrightarrow> responds_last (xs @ ys) = responds_last ys"
  by (simp add: responds_last_def butlast_append responses_append)

lemma responds_last_Cons:
  "es \<noteq> [] \<Longrightarrow> responds_last (e # es) = (responses [e] = [] \<and> responds_last es)"
  using responds_last_silent [of "[e]" es] responses_append [of "[e]" "butlast es"]
  by (auto simp: responds_last_def)

lemma responds_last_single: "responds_last [Respond st b]"
  by (simp add: responds_last_def)

lemma catch_effects:
  assumes "path f \<noteq> []"
  shows "unlinked (generate_catch f p err) =
      path f # (if \<not> str_falsy p \<and> p \<noteq> Some (path f) then [or_else p []] else [])
    \<and> written (generate_catch f p err) = []
    \<and> responds_last (generate_catch f p err)"
proof -
  have "generate_catch f p err =
      (Unlink (path f) # (if \<not> str_falsy p \<and> p \<noteq> Some (path f) then [Unlink (or_else p [])] else []))
        @ [Respond 500 (ErrorBody ''Failed to start video generation'' (Some err) None)]"
    using assms by (simp add: generate_catch_def generate_failed_def)
  then show ?thesis
    by (simp add: responds_last_snoc unlinked_append written_append del: append.simps)
qed

lemma submit_effects:
  assumes "path f \<noteq> []" "p \<noteq> []"
  shows "unlinked (generate_submit env req f target p) = path f # (if p \<noteq> path f then [p] else [])
    \<and> written (generate_submit env req f target p) = []
    \<and> responds_last (generate_submit env req f target p)"
proof -
  define a where "a = \<lparr>prompt = body_prompt req, model = body_model req,
          seconds = Some (or_else (body_seconds req) ''8''), size_arg = Some target,
          imagePath = Some p, imageMime = Some (mimetype f),
          imageOriginalName = Some (originalname f)\<rparr>"
  obtain cs res where c: "callOpenAIVideoCreate a (stat env) (remote env) = (cs, res)"
    by (cases "callOpenAIVideoCreate a (stat env) (remote env)")
  have cs: "written cs = []" "unlinked cs = []" "responses cs = []"
    using create_no_files [of a "stat env" "remote env"] by (simp_all add: c)
  show ?thesis
  proof (cases res)
    case (Inl err)
    then have g: "generate_submit env req f target p = cs @ generate_catch f (Some p) err"
      by (simp add: generate_submit_def c flip: a_def)
    show ?thesis
      using catch_effects [OF assms(1), of "Some p" err] assms(2) cs
      by (simp add: g unlinked_append written_append responds_last_append str_falsy_def or_else_def)
  next
    case (Inr job)
    then have g: "generate_submit env req f target p =
        (cs @ Unlink (path f) # (if p \<noteq> path f then [Unlink p] else [])) @ [Respond 200 (Job job)]"
      by (simp add: generate_submit_def c flip: a_def)
    show ?thesis
      unfolding g using cs
      by (simp add: responds_last_silent responds_last_Cons responds_last_single
          unlinked_append written_append)
  qed
qed

lemma generate_cleanup_configured:
  assumes "hasOpenAI env" "req_file req = Some f" "path f \<noteq> []"
  shows "unlinked (api_generate env req) = path f # written (api_generate env req)
    \<and> distinct (unlinked (api_generate env req))
    \<and> responds_last (api_generate env req)"
proof (cases "metadata env")
  case (Inl err)
  then have g: "api_generate env req = generate_catch f None err"
    using assms by (simp add: api_generate_def)
  show ?thesis
    using catch_effects [OF assms(3), of None err] by (simp add: g str_falsy_def)
next
  case (Inr dims)
  obtain iw ih where dims: "dims = (iw, ih)" by (cases dims)
  define target where "target = mapToValidSoraSize (requested_size (body_size req) iw ih)"
  define rp where "rp = resized_path (now env) (path f)"
  have rp: "rp \<noteq> []" "rp \<noteq> path f"
    unfolding rp_def by (simp add: resized_path_def, rule resized_path_fresh)
  show ?thesis
  proof (cases "needs_resize iw ih target")
    case False
    then have g: "api_generate env req = generate_submit env req f target (path f)"
      using assms Inr by (simp add: api_generate_def dims prepare_image_def flip: target_def)
    show ?thesis
      using submit_effects [OF assms(3) assms(3), of env req target] by (simp add: g)
  next
    case True
    show ?thesis
    proof (cases "resize_error env")
      case None
      then have g: "api_generate env req =
          [ResizeToFile (path f) rp (fst (target_dims target)) (snd (target_dims target)) ''fill'' False]
            @ generate_submit env req f target rp"
        using assms Inr True by (simp add: api_generate_def dims prepare_image_def flip: target_def rp_def)
      show ?thesis
        using submit_effects [OF assms(3) rp(1), of env req target] rp
        by (simp add: g responds_last_append unlinked_append written_append del: append.simps)
    next
      case (Some err)
      then have g: "api_generate env req =
          [ResizeToFile (path f) rp (fst (target_dims target)) (snd (target_dims target)) ''fill'' False]
            @ generate_catch f (Some rp) err"
        using assms Inr True by (simp add: api_generate_def dims prepare_image_def flip: target_def rp_def)
      show ?thesis
        using catch_effects [OF assms(3), of "Some rp" err] rp
        by (simp add: g responds_last_append unlinked_append written_append str_falsy_def or_else_def
            del: append.simps)
    qed
  qed
qed

text \<open>
  The other revision of the handler does the same as that of \<^verbatim>\<open>server.js\<close> when a file is
  uploaded, and cleans up the downloaded copy in the same way once it is written.
\<close>

lemma generate_catch_url_file:
  "path u \<noteq> [] \<Longrightarrow> generate_catch_url (Some u) None p err = generate_catch u p err"
  by (auto simp: generate_catch_url_def generate_catch_def unlink_upload_def unlink_temp_def str_falsy_def)

lemma generate_submit_url_file:
  "path u \<noteq> [] \<Longrightarrow> p \<noteq> [] \<Longrightarrow>
   generate_submit_url env req (Some u) None (path u) (mimetype u) (originalname u) target p
     = generate_submit env req u target p"
  by (auto simp: generate_submit_url_def generate_submit_def generate_catch_url_file
      unlink_upload_def unlink_temp_def str_falsy_def split: prod.splits sum.splits)

lemma generate_url_refines:
  assumes "req_file req = Some u" "path u \<noteq> []"
  shows "api_generate_url env req = api_generate env req"
proof -
  have rp: "resized_path t (path u) \<noteq> []" for t by (simp add: resized_path_def)
  show ?thesis
    using assms rp
    by (auto simp: api_generate_url_def api_generate_def generate_tail_def prepare_image_def
        generate_catch_url_file generate_submit_url_file split: sum.splits option.splits)
qed

lemma unlink_temp_Some: "p \<noteq> [] \<Longrightarrow> unlink_temp (Some p) = [Unlink p]"
  by (simp add: unlink_temp_def str_falsy_def or_else_def)

lemma unlink_upload_None: "unlink_upload None = []"
  by (simp add: unlink_upload_def)

lemma generate_url_cleanup:
  assumes "hasOpenAI env" "req_file req = None" "\<not> str_falsy (body_imageUrl req)"
    and "image_reply env = Inr (st, ct)" "ok st" "write_error env = None"
  shows "unlinked (api_generate_url env req) = written (api_generate_url env req)
    \<and> distinct (unlinked (api_generate_url env req))
    \<and> responds_last (api_generate_url env req)"
proof -
  define ext where "ext = extension_of (or_else ct ''image/jpeg'')"
  define tmp where "tmp = fetched_path (now_fetch env) ext"
  define rp where "rp = resized_path (now env) tmp"
  have tmp: "tmp \<noteq> []" by (simp add: tmp_def fetched_path_def)
  have rp: "rp \<noteq> []" "rp \<noteq> tmp"
    unfolding rp_def by (simp add: resized_path_def, rule resized_path_fresh)
  have g: "api_generate_url env req =
      [Fetch (GetImage (or_else (body_imageUrl req) [])), WriteFile tmp] @
      generate_tail env req None (Some tmp) tmp (or_else ct ''image/jpeg'') (''character.'' @ ext)"
    using assms by (simp add: api_generate_url_def tmp_def ext_def)
  have catch: "unlinked (generate_catch_url None (Some tmp) p err) =
        tmp # (if \<not> str_falsy p \<and> p \<noteq> Some tmp then [or_else p []] else [])
      \<and> written (generate_catch_url None (Some tmp) p err) = []
      \<and> responds_last (generate_catch_url None (Some tmp) p err)" for p err
  proof -
    have "generate_catch_url None (Some tmp) p err =
        (Unlink tmp # (if \<not> str_falsy p \<and> p \<noteq> Some tmp then [Unlink (or_else p [])] else []))
          @ [Respond 500 (ErrorBody ''Failed to start video generation'' (Some err) None)]"
      using tmp
      by (auto simp: generate_catch_url_def generate_failed_def unlink_upload_def unlink_temp_def
          str_falsy_def or_else_def)
    then show ?thesis
      by (simp add: responds_last_snoc unlinked_append written_append del: append.simps)
  qed
  have submit: "unlinked (generate_submit_url env req None (Some tmp) tmp m nm target p) =
        tmp # (if p \<noteq> tmp then [p] else [])
      \<and> written (generate_submit_url env req None (Some tmp) tmp m nm target p) = []
      \<and> responds_last (generate_submit_url env req None (Some tmp) tmp m nm target p)"
    if p: "p \<noteq> []" for m nm target p
  proof -
    define a where "a = \<lparr>prompt = body_prompt req, model = body_model req,
          seconds = Some (or_else (body_seconds req) ''8''), size_arg = Some target,
          imagePath = Some p, imageMime = Some m, imageOriginalName = Some nm\<rparr>"
    obtain cs res where c: "callOpenAIVideoCreate a (stat env) (remote env) = (cs, res)"
      by (cases "callOpenAIVideoCreate a (stat env) (remote env)")
    have cs: "written cs = []" "unlinked cs = []" "responses cs = []"
      using create_no_files [of a "stat env" "remote env"] by (simp_all add: c)
    show ?thesis
    proof (cases res)
      case (Inl err)
      then have g: "generate_submit_url env req None (Some tmp) tmp m nm target p
          = cs @ generate_catch_url None (Some tmp) (Some p) err"
        by (simp add: generate_submit_url_def c flip: a_def)
      show ?thesis
        using catch [of "Some p" err] p cs
        by (simp add: g unlinked_append written_append responds_last_append str_falsy_def or_else_def)
    next
      case (Inr job)
      then have g: "generate_submit_url env req None (Some tmp) tmp m nm target p =
          (cs @ Unlink tmp # (if p \<noteq> tmp then [Unlink p] else [])) @ [Respond 200 (Job job)]"
        using tmp p
        by (simp add: generate_submit_url_def c unlink_upload_None unlink_temp_Some flip: a_def)
      show ?thesis
        unfolding g using cs
        by (simp add: responds_last_silent responds_last_Cons responds_last_single
            unlinked_append written_append)
    qed
  qed
  have tail: "unlinked (generate_tail env req None (Some tmp) tmp m nm)
        = tmp # written (generate_tail env req None (Some tmp) tmp m nm)
      \<and> tmp \<notin> set (written (generate_tail env req None (Some tmp) tmp m nm))
      \<and> distinct (written (generate_tail env req None (Some tmp) tmp m nm))
      \<and> responds_last (generate_tail env req None (Some tmp) tmp m nm)" for m nm
  proof (cases "metadata env")
    case (Inl err)
    then have t: "generate_tail env req None (Some tmp) tmp m nm = generate_catch_url None (Some tmp) None err"
      by (simp add: generate_tail_def)
    show ?thesis using catch [of None err] by (simp add: t str_falsy_def)
  next
    case (Inr dims)
    obtain iw ih where dims: "dims = (iw, ih)" by (cases dims)
    define target where "target = mapToValidSoraSize (requested_size (body_size req) iw ih)"
    show ?thesis
    proof (cases "needs_resize iw ih target")
      case False
      then have t: "generate_tail env req None (Some tmp) tmp m nm
          = generate_submit_url env req None (Some tmp) tmp m nm target tmp"
        using Inr by (simp add: generate_tail_def dims prepare_image_def flip: target_def)
      show ?thesis using submit [OF tmp, of m nm target] by (simp add: t)
    next
      case True
      show ?thesis
      proof (cases "resize_error env")
        case None
        then have t: "generate_tail env req None (Some tmp) tmp m nm =
            [ResizeToFile tmp rp (fst (target_dims target)) (snd (target_dims target)) ''fill'' False]
              @ generate_submit_url env req None (Some tmp) tmp m nm target rp"
          using Inr True by (simp add: generate_tail_def dims prepare_image_def flip: target_def rp_def)
        show ?thesis
          using submit [OF rp(1), of m nm target] rp
          by (simp add: t responds_last_append unlinked_append written_append del: append.simps)
      next
        case (Some err)
        then have t: "generate_tail env req None (Some tmp) tmp m nm =
            [ResizeToFile tmp rp (fst (target_dims target)) (snd (target_dims target)) ''fill'' False]
              @ generate_catch_url None (Some tmp) (Some rp) err"
          using Inr True by (simp add: generate_tail_def dims prepare_image_def flip: target_def rp_def)
        show ?thesis
          using catch [of "Some rp" err] rp
          by (simp add: t responds_last_append unlinked_append written_append str_falsy_def or_else_def
              del: append.simps)
      qed
    qed
  qed
  show ?thesis
    using tail [of "or_else ct ''image/jpeg''" "''character.'' @ ext"]
    by (simp add: g responds_last_append unlinked_append written_append del: append.simps)
qed

text \<open>
  Claim C5.  When the API key is configured and a file is uploaded, every path through the
  handler unlinks the upload and the derivative, each once, before the one response
  (\<open>generate_cleanup_configured\<close>, and \<open>generate_url_cleanup\<close> for a downloaded image).  When the key is not configured the handler answers 503
  at once and unlinks nothing, although the upload middleware has stored the file already.
  The theorem evaluates both revisions of the handler there.
\<close>

theorem generate_unconfigured_keeps_upload:
  "api_generate (env\<lparr>hasOpenAI := False\<rparr>) req = [not_configured]
   \<and> api_generate_url (env\<lparr>hasOpenAI := False\<rparr>) req = [not_configured]
   \<and> unlinked [not_configured] = []"
  by (simp add: api_generate_def api_generate_url_def not_configured_def)

end
